theory Spec2Isabelle
  imports Main "HOL-Library.Sublist"
begin

section \<open>The transcription service: validator, worker and endpoint\<close>

text \<open>
  A shallow embedding of \<^verbatim>\<open>backend/transcriber.py\<close> and \<^verbatim>\<open>backend/main.py\<close>.
  Python exceptions are values (\<open>Inl\<close> of a sum), the file system and the calls made to the
  two external collaborators (the speech model and the extraction tool) are an explicit
  state that every function takes and returns. The collaborators themselves are
  parameters: nothing is assumed about what they return or raise. The \<^verbatim>\<open>print\<close>
  statements of the source are left out.
\<close>

subsection \<open>Exceptions, files and the world\<close>

type_synonym path = string
type_synonym bytes = string

text \<open>A Python exception: its class name and \<^verbatim>\<open>str(e)\<close>.\<close>

datatype exn = Exn (exn_class: string) (exn_str: string)

datatype node = File bytes | Dir

type_synonym filesystem = "path \<Rightarrow> node option"

record postprocessor =
  key :: string
  preferredcodec :: string
  preferredquality :: string

record ydl_opts =
  format :: string
  postprocessors :: "postprocessor list"
  outtmpl :: string
  quiet :: bool

text \<open>The calls a request makes to the external collaborators, in order.\<close>

datatype call =
  YdlDownload ydl_opts "string list"
| ModelTranscribe path bool

fun is_download :: "call \<Rightarrow> bool" where
  "is_download (YdlDownload opts urls) = True"
| "is_download (ModelTranscribe p fp16) = False"

text \<open>
  \<open>tempdir\<close> is what \<^verbatim>\<open>tempfile.gettempdir()\<close> returns; \<open>rand_names\<close> are the names
  the random name sequence of the \<^verbatim>\<open>tempfile\<close> module yields for the attempts it
  is allowed (\<^verbatim>\<open>TMP_MAX\<close> of them).
\<close>

record world =
  fs :: filesystem
  tempdir :: path
  rand_names :: "string list"
  calls :: "call list"

text \<open>
  The external collaborators. \<open>ydl_download opts urls f\<close> stands for
  \<^verbatim>\<open>with yt_dlp.YoutubeDL(opts) as ydl: ydl.download(urls)\<close> on file system \<open>f\<close>: it
  returns the file system it leaves and the exception it raised, if any.
  \<open>model_transcribe f p fp16\<close> stands for \<^verbatim>\<open>model.transcribe(p, fp16=fp16)\<close>: it reads
  the file system and returns the result dictionary or raises.
\<close>

record collab =
  ydl_download :: "ydl_opts \<Rightarrow> string list \<Rightarrow> filesystem \<Rightarrow> filesystem \<times> exn option"
  model_transcribe :: "filesystem \<Rightarrow> path \<Rightarrow> bool \<Rightarrow> exn + (string \<Rightarrow> string option)"

subsection \<open>The library functions the worker calls\<close>

text \<open>\<^verbatim>\<open>sub in s\<close> on Python strings: \<open>sub\<close> occurs in \<open>s\<close> as a contiguous substring.\<close>

fun str_contains :: "string \<Rightarrow> string \<Rightarrow> bool" where
  "str_contains sub [] = (sub = [])"
| "str_contains sub (c # cs) = (prefix sub (c # cs) \<or> str_contains sub cs)"

text \<open>\<^verbatim>\<open>os.path.join(a, b)\<close> of \<^verbatim>\<open>posixpath\<close>, for two components.\<close>

definition os_path_join :: "path \<Rightarrow> string \<Rightarrow> path" where
  "os_path_join a b =
     (if b \<noteq> [] \<and> hd b = CHR ''/'' then b
      else if a = [] \<or> last a = CHR ''/'' then a @ b
      else a @ ''/'' @ b)"

definition os_path_exists :: "filesystem \<Rightarrow> path \<Rightarrow> bool" where
  "os_path_exists f p = (f p \<noteq> None)"

text \<open>
  The loop of \<^verbatim>\<open>tempfile._mkstemp_inner\<close> and \<^verbatim>\<open>tempfile.mkdtemp\<close>: try the
  candidate names in order under the directory \<open>dir\<close>, skip a name that exists
  (\<^verbatim>\<open>FileExistsError\<close> is caught and the loop continues), create the first free one.
  Creating an entry needs its directory: when \<open>dir\<close> does not exist the call raises
  \<^verbatim>\<open>FileNotFoundError\<close>, when it is a file \<^verbatim>\<open>NotADirectoryError\<close>, and the loop does
  not catch either. The result is the path created, the names left, and the new file
  system; \<^verbatim>\<open>FileExistsError\<close> when every attempt found its name taken. \<open>what\<close> is
  the word of that message (\<^verbatim>\<open>file\<close> or \<^verbatim>\<open>directory\<close>).
\<close>

fun mktemp_loop ::
  "path \<Rightarrow> (string \<Rightarrow> string) \<Rightarrow> node \<Rightarrow> string \<Rightarrow> string list \<Rightarrow> filesystem
     \<Rightarrow> exn + (path \<times> string list \<times> filesystem)"
where
  "mktemp_loop dir mk nd what [] f =
     Inl (Exn ''FileExistsError'' (''[Errno 17] No usable temporary '' @ what @ '' name found''))"
| "mktemp_loop dir mk nd what (n # ns) f =
     (case f dir of
        None \<Rightarrow>
          Inl (Exn ''FileNotFoundError''
                 (''[Errno 2] No such file or directory: '' @ [CHR 0x27] @ os_path_join dir (mk n) @ [CHR 0x27]))
      | Some (File data) \<Rightarrow>
          Inl (Exn ''NotADirectoryError''
                 (''[Errno 20] Not a directory: '' @ [CHR 0x27] @ os_path_join dir (mk n) @ [CHR 0x27]))
      | Some Dir \<Rightarrow>
          (if f (os_path_join dir (mk n)) \<noteq> None then mktemp_loop dir mk nd what ns f
           else Inr (os_path_join dir (mk n), ns, f(os_path_join dir (mk n) \<mapsto> nd))))"

text \<open>\<^verbatim>\<open>tempfile.mkdtemp()\<close>, as \<^verbatim>\<open>TemporaryDirectory()\<close> calls it: prefix \<^verbatim>\<open>tmp\<close>, no suffix.\<close>

definition mkdtemp :: "world \<Rightarrow> exn + (path \<times> world)" where
  "mkdtemp w =
     (case mktemp_loop (tempdir w) (\<lambda>n. ''tmp'' @ n) Dir ''directory'' (rand_names w) (fs w) of
        Inl e \<Rightarrow> Inl e
      | Inr (d, ns, f) \<Rightarrow> Inr (d, w\<lparr>fs := f, rand_names := ns\<rparr>))"

text \<open>
  \<^verbatim>\<open>tempfile.NamedTemporaryFile(delete=False, suffix=...)\<close>: an empty file with a fresh
  name. With \<^verbatim>\<open>delete=False\<close> leaving the \<^verbatim>\<open>with\<close> block closes the file and does not
  remove it.
\<close>

definition NamedTemporaryFile :: "string \<Rightarrow> world \<Rightarrow> exn + (path \<times> world)" where
  "NamedTemporaryFile sfx w =
     (case mktemp_loop (tempdir w) (\<lambda>n. ''tmp'' @ n @ sfx) (File []) ''file''
             (rand_names w) (fs w) of
        Inl e \<Rightarrow> Inl e
      | Inr (p, ns, f) \<Rightarrow> Inr (p, w\<lparr>fs := f, rand_names := ns\<rparr>))"

definition file_write :: "path \<Rightarrow> bytes \<Rightarrow> world \<Rightarrow> world" where
  "file_write p data w = w\<lparr>fs := (fs w)(p \<mapsto> File data)\<rparr>"

text \<open>\<^verbatim>\<open>os.unlink(p)\<close>: removes a file, raises when there is none.\<close>

definition os_unlink :: "path \<Rightarrow> world \<Rightarrow> exn + world" where
  "os_unlink p w =
     (case fs w p of
        None \<Rightarrow>
          Inl (Exn ''FileNotFoundError'' (''[Errno 2] No such file or directory: '' @ [CHR 0x27] @ p @ [CHR 0x27]))
      | Some Dir \<Rightarrow>
          Inl (Exn ''IsADirectoryError'' (''[Errno 21] Is a directory: '' @ [CHR 0x27] @ p @ [CHR 0x27]))
      | Some (File data) \<Rightarrow> Inr (w\<lparr>fs := (fs w)(p := None)\<rparr>))"

text \<open>A path is the directory \<open>d\<close> itself or lies below it.\<close>

definition is_under :: "path \<Rightarrow> path \<Rightarrow> bool" where
  "is_under d p = (p = d \<or> prefix (d @ ''/'') p)"

text \<open>
  What leaving \<^verbatim>\<open>with tempfile.TemporaryDirectory()\<close> does: the directory and all
  below it are removed; a directory that is already gone is not an error.
\<close>

definition rmtree :: "path \<Rightarrow> filesystem \<Rightarrow> filesystem" where
  "rmtree d f = (\<lambda>p. if is_under d p then None else f p)"

subsection \<open>transcriber.py\<close>

text \<open>
  \<^verbatim>\<open>result = model.transcribe(file_path, fp16=False); return result["text"]\<close>.
  A result without the key raises \<^verbatim>\<open>KeyError\<close>.
\<close>

definition transcribe_audio :: "collab \<Rightarrow> path \<Rightarrow> world \<Rightarrow> (exn + string) \<times> world" where
  "transcribe_audio c file_path w =
     (let w1 = w\<lparr>calls := calls w @ [ModelTranscribe file_path False]\<rparr> in
      case model_transcribe c (fs w1) file_path False of
        Inl e \<Rightarrow> (Inl e, w1)
      | Inr result \<Rightarrow>
          (case result ''text'' of
             None \<Rightarrow> (Inl (Exn ''KeyError'' ([CHR 0x27] @ ''text'' @ [CHR 0x27])), w1)
           | Some t \<Rightarrow> (Inr t, w1)))"

text \<open>The options dictionary that \<^verbatim>\<open>process_youtube_url\<close> builds for its directory.\<close>

definition make_ydl_opts :: "path \<Rightarrow> ydl_opts" where
  "make_ydl_opts temp_dir =
     \<lparr>format = ''bestaudio/best'',
      postprocessors =
        [\<lparr>key = ''FFmpegExtractAudio'', preferredcodec = ''mp3'', preferredquality = ''192''\<rparr>],
      outtmpl = os_path_join temp_dir ''audio.%(ext)s'',
      quiet = False\<rparr>"

text \<open>The body of the \<^verbatim>\<open>with tempfile.TemporaryDirectory() as temp_dir\<close> block.\<close>

definition youtube_body :: "collab \<Rightarrow> string \<Rightarrow> path \<Rightarrow> world \<Rightarrow> (exn + string) \<times> world" where
  "youtube_body c url temp_dir w =
     (let opts = make_ydl_opts temp_dir;
          w1 = w\<lparr>calls := calls w @ [YdlDownload opts [url]]\<rparr>;
          w2 = w1\<lparr>fs := fst (ydl_download c opts [url] (fs w1))\<rparr>
      in case snd (ydl_download c opts [url] (fs w1)) of
           Some e \<Rightarrow> (Inl e, w2)
         | None \<Rightarrow>
             (let audio_path = os_path_join temp_dir ''audio.mp3'' in
              if \<not> os_path_exists (fs w2) audio_path
              then (Inl (Exn ''FileNotFoundError'' ''Failed to download audio from the URL.''), w2)
              else transcribe_audio c audio_path w2))"

definition process_youtube_url :: "collab \<Rightarrow> string \<Rightarrow> world \<Rightarrow> (exn + string) \<times> world" where
  "process_youtube_url c url w =
     (case mkdtemp w of
        Inl e \<Rightarrow> (Inl e, w)
      | Inr (temp_dir, w1) \<Rightarrow>
          (case youtube_body c url temp_dir w1 of
             (r, w2) \<Rightarrow> (r, w2\<lparr>fs := rmtree temp_dir (fs w2)\<rparr>)))"

text \<open>
  An \<^verbatim>\<open>UploadFile\<close>: its name and what \<^verbatim>\<open>file.file.read()\<close> does, which is to return
  the bytes of the upload or to raise.
\<close>

datatype upload_file = UploadFile (filename: string) (file_read: "exn + bytes")

text \<open>\<^verbatim>\<open>file.file.read()\<close>; on \<^verbatim>\<open>None\<close> the attribute access raises.\<close>

fun read_upload :: "upload_file option \<Rightarrow> exn + bytes" where
  "read_upload None = Inl (Exn ''AttributeError'' ([CHR 0x27] @ ''NoneType' object has no attribute 'file'' @ [CHR 0x27]))"
| "read_upload (Some f) = file_read f"

text \<open>
  The \<^verbatim>\<open>with\<close> block creates the file, reads the upload and writes it; only then
  does the \<^verbatim>\<open>try\<close> start whose \<^verbatim>\<open>finally\<close> unlinks the file. An exception of the
  \<^verbatim>\<open>finally\<close> clause replaces the one of the \<^verbatim>\<open>try\<close> body.
\<close>

definition process_audio_file :: "collab \<Rightarrow> upload_file option \<Rightarrow> world \<Rightarrow> (exn + string) \<times> world" where
  "process_audio_file c file w =
     (case NamedTemporaryFile ''.tmp'' w of
        Inl e \<Rightarrow> (Inl e, w)
      | Inr (temp_file_path, w1) \<Rightarrow>
          (case read_upload file of
             Inl e \<Rightarrow> (Inl e, w1)
           | Inr data \<Rightarrow>
               (case transcribe_audio c temp_file_path (file_write temp_file_path data w1) of
                  (r, w3) \<Rightarrow>
                    (case os_unlink temp_file_path w3 of
                       Inl e \<Rightarrow> (Inl e, w3)
                     | Inr w4 \<Rightarrow> (r, w4)))))"

subsection \<open>main.py\<close>

datatype http_exception = HTTPException (status_code: nat) (detail: string)

text \<open>The \<^verbatim>\<open>audio_file\<close> parameter, \<^verbatim>\<open>Union[UploadFile, str] = File(None)\<close>.\<close>

datatype audio_field = NoFile | StrField string | Upload upload_file

text \<open>The dictionary the validator returns.\<close>

record inputs =
  youtube_url :: "string option"
  audio_file :: "upload_file option"

text \<open>\<^verbatim>\<open>bool(youtube_url)\<close> for an \<^verbatim>\<open>Optional[str]\<close>.\<close>

fun py_bool :: "string option \<Rightarrow> bool" where
  "py_bool None = False"
| "py_bool (Some s) = (s \<noteq> [])"

text \<open>
  \<^verbatim>\<open>if isinstance(audio_file, str): audio_file = None\<close>. An \<^verbatim>\<open>UploadFile\<close> defines
  neither \<^verbatim>\<open>__bool__\<close> nor \<^verbatim>\<open>__len__\<close>, so \<^verbatim>\<open>bool(audio_file)\<close> is true exactly
  when it is not \<^verbatim>\<open>None\<close>.
\<close>

fun drop_str :: "audio_field \<Rightarrow> upload_file option" where
  "drop_str NoFile = None"
| "drop_str (StrField s) = None"
| "drop_str (Upload f) = Some f"

definition validate_and_process_inputs :: "string option \<Rightarrow> audio_field \<Rightarrow> http_exception + inputs" where
  "validate_and_process_inputs url file =
     (let file' = drop_str file;
          has_url = py_bool url;
          has_file = (file' \<noteq> None)
      in if \<not> has_url \<and> \<not> has_file
         then Inl (HTTPException 422 ''You must provide either a 'youtube_url' or an 'audio_file'.'')
         else if has_url \<and> has_file
         then Inl (HTTPException 422 ''Please provide either a 'youtube_url' or an 'audio_file', not both.'')
         else Inr \<lparr>youtube_url = url, audio_file = file'\<rparr>)"

text \<open>
  The \<^verbatim>\<open>try\<close> body of the endpoint: the worker for the kind of source, chosen by
  \<^verbatim>\<open>if youtube_url\<close>. The call through \<^verbatim>\<open>run_in_threadpool\<close> is a plain call here.
\<close>

definition run_worker :: "collab \<Rightarrow> inputs \<Rightarrow> world \<Rightarrow> (exn + string) \<times> world" where
  "run_worker c inp w =
     (case youtube_url inp of
        Some url \<Rightarrow>
          (if url \<noteq> [] then process_youtube_url c url w
           else process_audio_file c (audio_file inp) w)
      | None \<Rightarrow> process_audio_file c (audio_file inp) w)"

text \<open>The \<^verbatim>\<open>except Exception as e\<close> clause.\<close>

definition handle_exception :: "exn \<Rightarrow> http_exception" where
  "handle_exception e =
     (let error_message = exn_str e in
      if str_contains ''HTTP Error 403'' error_message \<or> str_contains ''unable to download'' error_message
      then HTTPException 400
             ''Failed to download audio from the provided YouTube URL. The video may be private or protected.''
      else HTTPException 500 (''An unexpected error occurred during transcription: '' @ error_message))"

type_synonym response = "(string \<times> string) list"

definition transcribe_endpoint ::
  "collab \<Rightarrow> inputs \<Rightarrow> world \<Rightarrow> (http_exception + response) \<times> world" where
  "transcribe_endpoint c inp w =
     (case run_worker c inp w of
        (Inl e, w') \<Rightarrow> (Inl (handle_exception e), w')
      | (Inr transcript, w') \<Rightarrow> (Inr [(''transcript'', transcript)], w'))"

text \<open>
  \<^verbatim>\<open>POST /transcribe\<close>: the endpoint \<^verbatim>\<open>Depends\<close> on the validator, so an
  \<^verbatim>\<open>HTTPException\<close> of the validator is the response and the endpoint body does not run.
\<close>

definition post_transcribe ::
  "collab \<Rightarrow> string option \<Rightarrow> audio_field \<Rightarrow> world \<Rightarrow> (http_exception + response) \<times> world" where
  "post_transcribe c url file w =
     (case validate_and_process_inputs url file of
        Inl h \<Rightarrow> (Inl h, w)
      | Inr inp \<Rightarrow> transcribe_endpoint c inp w)"

text \<open>The status of the HTTP response: that of the exception, 200 for a returned body.\<close>

fun response_status :: "http_exception + response \<Rightarrow> nat" where
  "response_status (Inl h) = status_code h"
| "response_status (Inr body) = 200"

subsection \<open>Concrete collaborators and worlds\<close>

definition world0 :: world where
  "world0 = \<lparr>fs = (\<lambda>p. if p = ''/tmp'' then Some Dir else None), tempdir = ''/tmp'',
             rand_names = [''k3x9_a2b'', ''q8w1e7rt''], calls = []\<rparr>"

text \<open>An extraction tool that returns without writing anything.\<close>

definition ydl_silent :: "ydl_opts \<Rightarrow> string list \<Rightarrow> filesystem \<Rightarrow> filesystem \<times> exn option" where
  "ydl_silent opts urls f = (f, None)"

text \<open>An extraction tool that writes the file its options name, with the codec as extension.\<close>

definition ydl_writes :: "ydl_opts \<Rightarrow> string list \<Rightarrow> filesystem \<Rightarrow> filesystem \<times> exn option" where
  "ydl_writes opts urls f =
     (f(take (length (outtmpl opts) - 7) (outtmpl opts) @ ''mp3'' \<mapsto> File ''ID3''), None)"

definition model_hello :: "filesystem \<Rightarrow> path \<Rightarrow> bool \<Rightarrow> exn + (string \<Rightarrow> string option)" where
  "model_hello f p fp16 = Inr [''text'' \<mapsto> '' hello world'', ''language'' \<mapsto> ''en'']"

definition model_fails :: "string \<Rightarrow> filesystem \<Rightarrow> path \<Rightarrow> bool \<Rightarrow> exn + (string \<Rightarrow> string option)" where
  "model_fails msg f p fp16 = Inl (Exn ''RuntimeError'' msg)"

definition collab_ok :: collab where
  "collab_ok = \<lparr>ydl_download = ydl_writes, model_transcribe = model_hello\<rparr>"

definition collab_silent :: collab where
  "collab_silent = \<lparr>ydl_download = ydl_silent, model_transcribe = model_hello\<rparr>"

definition collab_failing :: "string \<Rightarrow> collab" where
  "collab_failing msg = \<lparr>ydl_download = ydl_writes, model_transcribe = model_fails msg\<rparr>"

definition upload_ok :: upload_file where
  "upload_ok = UploadFile ''speech.wav'' (Inr ''RIFF'')"

definition upload_unreadable :: upload_file where
  "upload_unreadable = UploadFile ''speech.wav'' (Inl (Exn ''OSError'' ''[Errno 5] Input/output error''))"

text \<open>An extraction tool that is refused by the remote site.\<close>

definition ydl_forbidden :: "ydl_opts \<Rightarrow> string list \<Rightarrow> filesystem \<Rightarrow> filesystem \<times> exn option" where
  "ydl_forbidden opts urls f =
     (f, Some (Exn ''DownloadError'' ''ERROR: unable to download video data: HTTP Error 403: Forbidden''))"

definition collab_forbidden :: collab where
  "collab_forbidden = \<lparr>ydl_download = ydl_forbidden, model_transcribe = model_hello\<rparr>"

text \<open>
  An extraction tool that writes its output only when it is given the options and the
  URL list it expects, and raises otherwise.
\<close>

definition ydl_checked :: "ydl_opts \<Rightarrow> string list \<Rightarrow> filesystem \<Rightarrow> filesystem \<times> exn option" where
  "ydl_checked opts urls f =
     (if format opts = ''bestaudio/best''
         \<and> postprocessors opts =
             [\<lparr>key = ''FFmpegExtractAudio'', preferredcodec = ''mp3'', preferredquality = ''192''\<rparr>]
         \<and> urls = [''https://youtu.be/x'']
      then (f(take (length (outtmpl opts) - 7) (outtmpl opts) @ ''mp3'' \<mapsto> File ''ID3''), None)
      else (f, Some (Exn ''DownloadError'' ''ERROR: unexpected options'')))"

definition collab_checked :: collab where
  "collab_checked = \<lparr>ydl_download = ydl_checked, model_transcribe = model_hello\<rparr>"

text \<open>The world after \<open>mkdtemp\<close> on \<open>world0\<close>.\<close>

definition world1 :: world where
  "world1 = world0\<lparr>fs := (fs world0)(''/tmp/tmpk3x9_a2b'' \<mapsto> Dir), rand_names := [''q8w1e7rt'']\<rparr>"

section \<open>Properties\<close>

lemmas model_defs =
  post_transcribe_def validate_and_process_inputs_def transcribe_endpoint_def run_worker_def
  handle_exception_def process_youtube_url_def youtube_body_def process_audio_file_def
  transcribe_audio_def make_ydl_opts_def mkdtemp_def NamedTemporaryFile_def file_write_def
  os_unlink_def rmtree_def is_under_def os_path_join_def os_path_exists_def

lemmas example_defs =
  world0_def collab_ok_def collab_silent_def collab_failing_def collab_forbidden_def
  ydl_silent_def ydl_writes_def ydl_forbidden_def model_hello_def model_fails_def
  upload_ok_def upload_unreadable_def collab_checked_def ydl_checked_def

subsection \<open>Facts about the library functions and the inference step\<close>

text \<open>\<open>str_contains\<close> is the contiguous-sublist relation of the library.\<close>

lemma str_contains_sublist: "str_contains sub s = sublist sub s"
  by (induction s) (auto simp: sublist_Cons_right)

lemma transcribe_audio_calls:
  "calls (snd (transcribe_audio c p w)) = calls w @ [ModelTranscribe p False]"
  by (simp add: transcribe_audio_def Let_def split: sum.split option.split)

lemma transcribe_audio_fs: "fs (snd (transcribe_audio c p w)) = fs w"
  by (simp add: transcribe_audio_def Let_def split: sum.split option.split)

lemma mktemp_loop_fresh:
  "mktemp_loop dir mk nd what ns f = Inr (p, ns', f') \<Longrightarrow>
     f p = None \<and> f' = f(p \<mapsto> nd) \<and> f dir = Some Dir"
  by (induction ns) (auto split: if_splits option.splits node.splits)

lemma mktemp_loop_name:
  "mktemp_loop dir mk nd what ns f = Inr (p, ns', f') \<Longrightarrow> \<exists>n. p = os_path_join dir (mk n)"
  by (induction ns) (auto split: if_splits option.splits node.splits)

text \<open>Without the directory for temporary files nothing is created.\<close>

lemma mktemp_loop_needs_dir:
  "f dir \<noteq> Some Dir \<Longrightarrow> mktemp_loop dir mk nd what ns f = Inr (p, ns', f') \<Longrightarrow> False"
  by (cases ns) (auto split: option.splits node.splits)

text \<open>A temporary file or directory is new: its path was free before.\<close>

lemma NamedTemporaryFile_creates:
  assumes "NamedTemporaryFile sfx w = Inr (p, w1)"
  shows "fs w p = None \<and> fs w1 = (fs w)(p \<mapsto> File []) \<and> calls w1 = calls w"
  using assms
  by (auto simp: NamedTemporaryFile_def split: sum.splits dest: mktemp_loop_fresh)

lemma mkdtemp_creates:
  assumes "mkdtemp w = Inr (d, w1)"
  shows "fs w d = None \<and> fs w1 = (fs w)(d \<mapsto> Dir) \<and> calls w1 = calls w"
  using assms
  by (auto simp: mkdtemp_def split: sum.splits dest: mktemp_loop_fresh)

lemma mkdtemp_nonempty:
  assumes "mkdtemp w = Inr (d, w1)"
  shows "d \<noteq> []"
proof -
  obtain n where "d = os_path_join (tempdir w) (''tmp'' @ n)"
    using assms by (auto simp: mkdtemp_def split: sum.splits dest: mktemp_loop_name)
  then show ?thesis
    by (simp add: os_path_join_def)
qed

lemma mkdtemp_world0: "mkdtemp world0 = Inr (''/tmp/tmpk3x9_a2b'', world1)"
  by (simp add: mkdtemp_def world0_def world1_def os_path_join_def)

lemma calls_world0: "calls world0 = []"
  by (simp add: world0_def)

subsection \<open>Temporary resources\<close>

text \<open>
  Once the upload has been read and written, the temporary file is gone when
  \<open>process_audio_file\<close> returns or raises, whatever inference did.
\<close>

lemma process_audio_file_unlinks:
  assumes "NamedTemporaryFile ''.tmp'' w = Inr (p, w1)" and "read_upload file = Inr data"
  shows "fs (snd (process_audio_file c file w)) p = None"
proof -
  obtain r w3 where t: "transcribe_audio c p (file_write p data w1) = (r, w3)"
    by (cases "transcribe_audio c p (file_write p data w1)")
  have "fs w3 = fs (file_write p data w1)"
    using transcribe_audio_fs [of c p "file_write p data w1"] t by simp
  then have "fs w3 p = Some (File data)"
    by (simp add: file_write_def)
  then show ?thesis
    using assms t by (simp add: process_audio_file_def os_unlink_def)
qed

text \<open>
  The temporary directory and everything below it is gone when \<open>process_youtube_url\<close>
  returns or raises, whatever the extraction tool and inference did.
\<close>

lemma process_youtube_url_removes_tree:
  assumes "mkdtemp w = Inr (d, w1)" and "is_under d p"
  shows "fs (snd (process_youtube_url c url w)) p = None"
  using assms
  by (simp add: process_youtube_url_def rmtree_def split: prod.split)

text \<open>
  When reading the upload raises, the exception leaves the \<^verbatim>\<open>with\<close> block before the
  \<^verbatim>\<open>try\<close> is entered: the temporary file, new for this request, stays.
\<close>

lemma process_audio_file_keeps_file_when_read_raises:
  assumes "NamedTemporaryFile ''.tmp'' w = Inr (p, w1)" and "read_upload file = Inl e"
  shows "process_audio_file c file w = (Inl e, w1) \<and> fs w p = None \<and> fs w1 p = Some (File [])"
  using assms NamedTemporaryFile_creates [OF assms(1)]
  by (simp add: process_audio_file_def)

text \<open>
  C1. Every temporary resource created for a request is removed before the worker returns
  or propagates its exception. The worker does not meet this on the file-backed path when
  \<^verbatim>\<open>file.file.read()\<close> raises: for the upload \<open>upload_unreadable\<close> on \<open>world0\<close> the path
  \<^verbatim>\<open>/tmp/tmpk3x9_a2b.tmp\<close> is free before the request, the worker raises, the response
  is 500, and the temporary file is still there afterwards.
\<close>

theorem temp_file_left_when_read_raises:
  "fs world0 ''/tmp/tmpk3x9_a2b.tmp'' = None
   \<and> fst (process_audio_file collab_ok (Some upload_unreadable) world0) =
       Inl (Exn ''OSError'' ''[Errno 5] Input/output error'')
   \<and> fs (snd (process_audio_file collab_ok (Some upload_unreadable) world0)) ''/tmp/tmpk3x9_a2b.tmp'' =
       Some (File [])
   \<and> response_status (fst (post_transcribe collab_ok None (Upload upload_unreadable) world0)) = 500
   \<and> fs (snd (post_transcribe collab_ok None (Upload upload_unreadable) world0)) ''/tmp/tmpk3x9_a2b.tmp'' =
       Some (File [])"
  by (simp add: model_defs example_defs)

subsection \<open>The validator\<close>

text \<open>
  C2. A submission in which neither \<^verbatim>\<open>youtube_url\<close> nor \<^verbatim>\<open>audio_file\<close> carries a
  value is rejected by the validator with status 422, and the request leaves the world as
  it was: no file is created and no collaborator is called.
\<close>

theorem neither_field_is_422:
  "validate_and_process_inputs None NoFile =
     Inl (HTTPException 422 ''You must provide either a 'youtube_url' or an 'audio_file'.'')
   \<and> response_status (fst (post_transcribe c None NoFile w)) = 422
   \<and> snd (post_transcribe c None NoFile w) = w"
  by (simp add: validate_and_process_inputs_def post_transcribe_def)

text \<open>
  A submission with a non-empty \<^verbatim>\<open>youtube_url\<close> and an uploaded file is rejected by
  the validator with status 422, and the request leaves the world as it was.
\<close>

lemma both_fields_is_422:
  assumes "url \<noteq> []"
  shows "validate_and_process_inputs (Some url) (Upload f) =
           Inl (HTTPException 422 ''Please provide either a 'youtube_url' or an 'audio_file', not both.'')
         \<and> response_status (fst (post_transcribe c (Some url) (Upload f) w)) = 422
         \<and> snd (post_transcribe c (Some url) (Upload f) w) = w"
  using assms by (simp add: validate_and_process_inputs_def post_transcribe_def)


text \<open>
  C7. An \<^verbatim>\<open>audio_file\<close> field that carries the empty string is treated as absent: the
  validator answers as it does without the field; with a non-empty URL the request is
  accepted and runs the URL worker; with no URL it is rejected with status 422.
\<close>

theorem empty_string_file_is_absent:
  "validate_and_process_inputs u (StrField '''') = validate_and_process_inputs u NoFile
   \<and> (url \<noteq> [] \<longrightarrow>
        validate_and_process_inputs (Some url) (StrField '''') =
          Inr \<lparr>youtube_url = Some url, audio_file = None\<rparr>
        \<and> run_worker c \<lparr>youtube_url = Some url, audio_file = None\<rparr> w = process_youtube_url c url w
        \<and> post_transcribe c (Some url) (StrField '''') w = post_transcribe c (Some url) NoFile w)
   \<and> validate_and_process_inputs None (StrField '''') =
       Inl (HTTPException 422 ''You must provide either a 'youtube_url' or an 'audio_file'.'')
   \<and> response_status (fst (post_transcribe c None (StrField '''') w)) = 422
   \<and> snd (post_transcribe c None (StrField '''') w) = w"
  by (simp add: validate_and_process_inputs_def post_transcribe_def transcribe_endpoint_def run_worker_def)

theorem empty_string_file_is_absent_witness:
  "''https://youtu.be/x'' \<noteq> []
   \<and> validate_and_process_inputs (Some ''https://youtu.be/x'') (StrField '''') =
        Inr \<lparr>youtube_url = Some ''https://youtu.be/x'', audio_file = None\<rparr>
   \<and> run_worker collab_ok \<lparr>youtube_url = Some ''https://youtu.be/x'', audio_file = None\<rparr> world0 =
        process_youtube_url collab_ok ''https://youtu.be/x'' world0
   \<and> post_transcribe collab_ok (Some ''https://youtu.be/x'') (StrField '''') world0 =
        post_transcribe collab_ok (Some ''https://youtu.be/x'') NoFile world0
   \<and> response_status (fst (post_transcribe collab_ok None (StrField '''') world0)) = 422"
  using empty_string_file_is_absent [of "Some ''https://youtu.be/x''" "''https://youtu.be/x''" collab_ok world0]
  by (simp add: validate_and_process_inputs_def)

text \<open>
  C10. A \<^verbatim>\<open>youtube_url\<close> field that carries the empty string is treated as absent: with
  an uploaded file the request is accepted and runs the file worker, every request answers
  as it does without the URL field, and with no file the request is rejected with status
  422.
\<close>

theorem empty_url_is_absent:
  "validate_and_process_inputs (Some '''') (Upload f) = Inr \<lparr>youtube_url = Some '''', audio_file = Some f\<rparr>
   \<and> run_worker c \<lparr>youtube_url = Some '''', audio_file = Some f\<rparr> w = process_audio_file c (Some f) w
   \<and> post_transcribe c (Some '''') file w = post_transcribe c None file w
   \<and> validate_and_process_inputs (Some '''') NoFile =
       Inl (HTTPException 422 ''You must provide either a 'youtube_url' or an 'audio_file'.'')
   \<and> response_status (fst (post_transcribe c (Some '''') NoFile w)) = 422
   \<and> snd (post_transcribe c (Some '''') NoFile w) = w"
  by (cases "file")
     (simp_all add: validate_and_process_inputs_def post_transcribe_def transcribe_endpoint_def
        run_worker_def)

subsection \<open>The worker and its collaborators\<close>

text \<open>
  C8. Inference on a path calls the model's transcription routine once, on that path, with
  \<^verbatim>\<open>fp16\<close> off; and when the model returns a result with a \<^verbatim>\<open>text\<close> entry, the value
  returned is exactly that entry.
\<close>

theorem inference_fp16_off_returns_text:
  "calls (snd (transcribe_audio c p w)) = calls w @ [ModelTranscribe p False]
   \<and> (\<forall>result t. model_transcribe c (fs w) p False = Inr result \<longrightarrow> result ''text'' = Some t \<longrightarrow>
         fst (transcribe_audio c p w) = Inr t)"
  by (simp add: transcribe_audio_def Let_def split: sum.split option.split)

theorem inference_fp16_off_returns_text_witness:
  "calls (snd (transcribe_audio collab_ok ''/tmp/a.mp3'' world0)) = [ModelTranscribe ''/tmp/a.mp3'' False]
   \<and> model_transcribe collab_ok (fs world0) ''/tmp/a.mp3'' False =
        Inr [''text'' \<mapsto> '' hello world'', ''language'' \<mapsto> ''en'']
   \<and> [''text'' \<mapsto> '' hello world'', ''language'' \<mapsto> ''en''] ''text'' = Some '' hello world''
   \<and> fst (transcribe_audio collab_ok ''/tmp/a.mp3'' world0) = Inr '' hello world''"
proof -
  have m: "model_transcribe collab_ok (fs world0) ''/tmp/a.mp3'' False =
        Inr [''text'' \<mapsto> '' hello world'', ''language'' \<mapsto> ''en'']"
    by (simp add: collab_ok_def model_hello_def)
  have t: "[''text'' \<mapsto> '' hello world'', ''language'' \<mapsto> ''en''] ''text'' = Some '' hello world''"
    by simp
  show ?thesis
    using inference_fp16_off_returns_text [of collab_ok "''/tmp/a.mp3''" world0] m t calls_world0
    by simp
qed

lemma youtube_body_downloads:
  "filter is_download (calls (snd (youtube_body c url d w))) =
     filter is_download (calls w) @ [YdlDownload (make_ydl_opts d) [url]]"
  by (simp add: youtube_body_def Let_def transcribe_audio_calls split: option.split)

lemma process_youtube_url_downloads:
  assumes "mkdtemp w = Inr (d, w1)"
  shows "filter is_download (calls (snd (process_youtube_url c url w))) =
     filter is_download (calls w) @ [YdlDownload (make_ydl_opts d) [url]]"
  using assms youtube_body_downloads [of c url d w1] mkdtemp_creates [OF assms]
  by (cases "youtube_body c url d w1") (simp add: process_youtube_url_def)

lemma process_youtube_url_unfold:
  assumes "mkdtemp w = Inr (d, w1)"
  shows "process_youtube_url c url w =
     (fst (youtube_body c url d w1),
      (snd (youtube_body c url d w1))\<lparr>fs := rmtree d (fs (snd (youtube_body c url d w1)))\<rparr>)"
  using assms by (cases "youtube_body c url d w1") (simp add: process_youtube_url_def)

lemma youtube_body_fs:
  "fs (snd (youtube_body c url d w)) = fst (ydl_download c (make_ydl_opts d) [url] (fs w))"
  by (simp add: youtube_body_def Let_def transcribe_audio_fs split: option.split)

lemma youtube_body_raises:
  "snd (ydl_download c (make_ydl_opts d) [url] (fs w)) = Some e \<Longrightarrow>
     fst (youtube_body c url d w) = Inl e"
  by (simp add: youtube_body_def Let_def)

lemma youtube_body_returns:
  "snd (ydl_download c (make_ydl_opts d) [url] (fs w)) = None \<Longrightarrow>
     fst (youtube_body c url d w) =
       (if fst (ydl_download c (make_ydl_opts d) [url] (fs w)) (os_path_join d ''audio.mp3'') = None
        then Inl (Exn ''FileNotFoundError'' ''Failed to download audio from the URL.'')
        else fst (transcribe_audio c (os_path_join d ''audio.mp3'')
               (w\<lparr>calls := calls w @ [YdlDownload (make_ydl_opts d) [url]],
                  fs := fst (ydl_download c (make_ydl_opts d) [url] (fs w))\<rparr>)))"
  by (simp add: youtube_body_def Let_def os_path_exists_def)

lemma make_ydl_opts_explicit:
  "make_ydl_opts d =
      \<lparr>format = ''bestaudio/best'',
       postprocessors =
         [\<lparr>key = ''FFmpegExtractAudio'', preferredcodec = ''mp3'', preferredquality = ''192''\<rparr>],
       outtmpl = os_path_join d ''audio.'' @ ''%(ext)s'',
       quiet = False\<rparr>"
  by (simp add: make_ydl_opts_def os_path_join_def)

lemma checked_download:
  "ydl_download collab_checked
     \<lparr>format = ''bestaudio/best'',
      postprocessors =
        [\<lparr>key = ''FFmpegExtractAudio'', preferredcodec = ''mp3'', preferredquality = ''192''\<rparr>],
      outtmpl = ''/tmp/tmpk3x9_a2b/audio.%(ext)s'',
      quiet = False\<rparr>
     [''https://youtu.be/x''] (fs world1) =
   ((fs world1)(''/tmp/tmpk3x9_a2b/audio.mp3'' \<mapsto> File ''ID3''), None)"
  by (simp add: collab_checked_def ydl_checked_def)

text \<open>
  C9. A URL-backed request whose temporary directory is \<open>d\<close> applies the extraction tool
  exactly once, to the list of the one URL of the request and to these options: format
  \<^verbatim>\<open>bestaudio/best\<close>, one post-processor that extracts audio as mp3 at quality 192, and
  an output template \<^verbatim>\<open>audio.%(ext)s\<close> in \<open>d\<close>. What the request does is what the tool
  does on exactly these arguments: the file system the request leaves is the one the tool
  left, without the tree of \<open>d\<close>; an exception of the tool is the exception of the
  worker; and when the tool returns, the worker looks for \<^verbatim>\<open>audio.mp3\<close> in \<open>d\<close>
  in the file system the tool left and runs inference on it. With the extension
  \<^verbatim>\<open>mp3\<close> in place of \<^verbatim>\<open>%(ext)s\<close> the template is that path, and it lies below \<open>d\<close>.
\<close>

theorem extraction_tool_configuration:
  assumes "mkdtemp w = Inr (d, w1)"
  shows "(let opts = \<lparr>format = ''bestaudio/best'',
                      postprocessors =
                        [\<lparr>key = ''FFmpegExtractAudio'', preferredcodec = ''mp3'',
                          preferredquality = ''192''\<rparr>],
                      outtmpl = os_path_join d ''audio.'' @ ''%(ext)s'',
                      quiet = False\<rparr>;
              tool = ydl_download c opts [url] (fs w1)
          in filter is_download (calls (snd (process_youtube_url c url w))) =
               filter is_download (calls w) @ [YdlDownload opts [url]]
           \<and> fs (snd (process_youtube_url c url w)) = rmtree d (fst tool)
           \<and> (\<forall>e. snd tool = Some e \<longrightarrow> fst (process_youtube_url c url w) = Inl e)
           \<and> (snd tool = None \<longrightarrow>
                fst (process_youtube_url c url w) =
                  (if fst tool (os_path_join d ''audio.mp3'') = None
                   then Inl (Exn ''FileNotFoundError'' ''Failed to download audio from the URL.'')
                   else fst (transcribe_audio c (os_path_join d ''audio.mp3'')
                          (w1\<lparr>calls := calls w1 @ [YdlDownload opts [url]], fs := fst tool\<rparr>)))))
       \<and> os_path_join d ''audio.mp3'' = os_path_join d ''audio.'' @ ''mp3''
       \<and> (last d \<noteq> CHR ''/'' \<longrightarrow>
            os_path_join d ''audio.mp3'' = d @ ''/audio.mp3'' \<and> is_under d (os_path_join d ''audio.mp3''))"
proof -
  have ne: "d \<noteq> []"
    using assms by (rule mkdtemp_nonempty)
  note u = process_youtube_url_unfold [OF assms, of c url]
  have 1: "filter is_download (calls (snd (process_youtube_url c url w))) =
             filter is_download (calls w) @ [YdlDownload (make_ydl_opts d) [url]]"
    using process_youtube_url_downloads [OF assms, of c url] .
  have 2: "fs (snd (process_youtube_url c url w)) =
             rmtree d (fst (ydl_download c (make_ydl_opts d) [url] (fs w1)))"
    by (simp add: u youtube_body_fs)
  have 3: "\<forall>e. snd (ydl_download c (make_ydl_opts d) [url] (fs w1)) = Some e \<longrightarrow>
             fst (process_youtube_url c url w) = Inl e"
    by (simp add: u youtube_body_raises)
  have 4: "snd (ydl_download c (make_ydl_opts d) [url] (fs w1)) = None \<longrightarrow>
             fst (process_youtube_url c url w) =
               (if fst (ydl_download c (make_ydl_opts d) [url] (fs w1)) (os_path_join d ''audio.mp3'') = None
                then Inl (Exn ''FileNotFoundError'' ''Failed to download audio from the URL.'')
                else fst (transcribe_audio c (os_path_join d ''audio.mp3'')
                       (w1\<lparr>calls := calls w1 @ [YdlDownload (make_ydl_opts d) [url]],
                          fs := fst (ydl_download c (make_ydl_opts d) [url] (fs w1))\<rparr>)))"
    by (simp add: u youtube_body_returns)
  have 5: "os_path_join d ''audio.mp3'' = os_path_join d ''audio.'' @ ''mp3''"
    by (simp add: os_path_join_def)
  have 6: "last d \<noteq> CHR ''/'' \<longrightarrow>
            os_path_join d ''audio.mp3'' = d @ ''/audio.mp3'' \<and> is_under d (os_path_join d ''audio.mp3'')"
    using ne by (simp add: os_path_join_def is_under_def)
  show ?thesis
    unfolding Let_def
    using 1 2 3 4 5 6 unfolding make_ydl_opts_explicit by blast
qed

theorem extraction_tool_configuration_witness:
  "filter is_download (calls (snd (process_youtube_url collab_checked ''https://youtu.be/x'' world0))) =
     [YdlDownload
        \<lparr>format = ''bestaudio/best'',
         postprocessors =
           [\<lparr>key = ''FFmpegExtractAudio'', preferredcodec = ''mp3'', preferredquality = ''192''\<rparr>],
         outtmpl = ''/tmp/tmpk3x9_a2b/audio.%(ext)s'',
         quiet = False\<rparr>
        [''https://youtu.be/x'']]
   \<and> fs (snd (process_youtube_url collab_checked ''https://youtu.be/x'' world0)) =
       rmtree ''/tmp/tmpk3x9_a2b'' ((fs world1)(''/tmp/tmpk3x9_a2b/audio.mp3'' \<mapsto> File ''ID3''))
   \<and> fst (process_youtube_url collab_checked ''https://youtu.be/x'' world0) = Inr '' hello world''
   \<and> os_path_join ''/tmp/tmpk3x9_a2b'' ''audio.mp3'' = ''/tmp/tmpk3x9_a2b/audio.mp3''
   \<and> is_under ''/tmp/tmpk3x9_a2b'' (os_path_join ''/tmp/tmpk3x9_a2b'' ''audio.mp3'')"
proof -
  have j: "os_path_join ''/tmp/tmpk3x9_a2b'' ''audio.'' = ''/tmp/tmpk3x9_a2b/audio.''"
    by (simp add: os_path_join_def)
  have j3: "os_path_join ''/tmp/tmpk3x9_a2b'' ''audio.mp3'' = ''/tmp/tmpk3x9_a2b/audio.mp3''"
    by (simp add: os_path_join_def)
  have l: "last ''/tmp/tmpk3x9_a2b'' \<noteq> CHR ''/''"
    by simp
  have t: "fst (transcribe_audio collab_checked ''/tmp/tmpk3x9_a2b/audio.mp3'' w) = Inr '' hello world''" for w
    by (simp add: transcribe_audio_def collab_checked_def model_hello_def Let_def)
  show ?thesis
    using extraction_tool_configuration [OF mkdtemp_world0, of collab_checked "''https://youtu.be/x''"]
      l calls_world0 checked_download t
    by (simp add: j j3 Let_def is_under_def)
qed

subsection \<open>Exceptions at the endpoint\<close>

lemma youtube_body_silent:
  assumes "ydl_download c (make_ydl_opts d) [url] (fs w1) = (f', None)"
      and "f' (os_path_join d ''audio.mp3'') = None"
  shows "fst (youtube_body c url d w1) =
           Inl (Exn ''FileNotFoundError'' ''Failed to download audio from the URL.'')"
  using assms by (simp add: youtube_body_def Let_def os_path_exists_def)

lemma silent_download:
  "ydl_download collab_silent (make_ydl_opts ''/tmp/tmpk3x9_a2b'') [''https://youtu.be/x''] (fs world1) =
     (fs world1, None)"
  by (simp add: collab_silent_def ydl_silent_def)

lemma silent_no_output: "fs world1 (os_path_join ''/tmp/tmpk3x9_a2b'' ''audio.mp3'') = None"
  by (simp add: world1_def world0_def os_path_join_def)

text \<open>
  C4, as the claim has it: when the extraction tool returns and \<^verbatim>\<open>audio.mp3\<close> is not in
  the temporary directory, the response has status 400. It does not: with the tool
  \<open>ydl_silent\<close>, which returns without writing, the response has status 500.
\<close>

theorem missing_output_not_400:
  "mkdtemp world0 = Inr (''/tmp/tmpk3x9_a2b'', world1)
   \<and> ydl_download collab_silent (make_ydl_opts ''/tmp/tmpk3x9_a2b'') [''https://youtu.be/x''] (fs world1) =
       (fs world1, None)
   \<and> fs world1 (os_path_join ''/tmp/tmpk3x9_a2b'' ''audio.mp3'') = None
   \<and> response_status (fst (post_transcribe collab_silent (Some ''https://youtu.be/x'') NoFile world0)) = 500
   \<and> response_status (fst (post_transcribe collab_silent (Some ''https://youtu.be/x'') NoFile world0)) \<noteq> 400"
proof -
  have "response_status (fst (post_transcribe collab_silent (Some ''https://youtu.be/x'') NoFile world0)) = 500"
    by (simp add: model_defs example_defs)
  then show ?thesis
    using mkdtemp_world0 silent_download silent_no_output by simp
qed

text \<open>
  C4, amended: for a URL-backed request, when the extraction tool returns without raising
  and \<^verbatim>\<open>audio.mp3\<close> is not in the temporary directory, the worker raises
  \<^verbatim>\<open>FileNotFoundError\<close> with the message \<^verbatim>\<open>Failed to download audio from the URL.\<close>, and
  the endpoint answers with status 500 and that message in the detail.
\<close>

theorem missing_output_is_500:
  assumes "youtube_url inp = Some url" and "url \<noteq> []"
      and "mkdtemp w = Inr (d, w1)"
      and "ydl_download c (make_ydl_opts d) [url] (fs w1) = (f', None)"
      and "f' (os_path_join d ''audio.mp3'') = None"
  shows "fst (process_youtube_url c url w) =
           Inl (Exn ''FileNotFoundError'' ''Failed to download audio from the URL.'')
       \<and> fst (transcribe_endpoint c inp w) =
           Inl (HTTPException 500
             ''An unexpected error occurred during transcription: Failed to download audio from the URL.'')"
proof -
  have p: "fst (process_youtube_url c url w) =
           Inl (Exn ''FileNotFoundError'' ''Failed to download audio from the URL.'')"
    using youtube_body_silent [OF assms(4,5)] assms(3)
    by (cases "youtube_body c url d w1") (simp add: process_youtube_url_def)
  have r: "run_worker c inp w = process_youtube_url c url w"
    using assms(1,2) by (simp add: run_worker_def)
  have h: "handle_exception (Exn ''FileNotFoundError'' ''Failed to download audio from the URL.'') =
     HTTPException 500
       ''An unexpected error occurred during transcription: Failed to download audio from the URL.''"
    by (simp add: handle_exception_def)
  show ?thesis
    using p r h by (cases "process_youtube_url c url w") (simp add: transcribe_endpoint_def)
qed

theorem missing_output_is_500_witness:
  "fst (process_youtube_url collab_silent ''https://youtu.be/x'' world0) =
     Inl (Exn ''FileNotFoundError'' ''Failed to download audio from the URL.'')
   \<and> fst (transcribe_endpoint collab_silent
            \<lparr>youtube_url = Some ''https://youtu.be/x'', audio_file = None\<rparr> world0) =
     Inl (HTTPException 500
       ''An unexpected error occurred during transcription: Failed to download audio from the URL.'')"
  using missing_output_is_500 [OF _ _ mkdtemp_world0 silent_download silent_no_output,
      of "\<lparr>youtube_url = Some ''https://youtu.be/x'', audio_file = None\<rparr>"]
  by simp

lemma forbidden_raises:
  "fst (run_worker collab_forbidden \<lparr>youtube_url = Some ''https://youtu.be/x'', audio_file = None\<rparr> world0) =
     Inl (Exn ''DownloadError'' ''ERROR: unable to download video data: HTTP Error 403: Forbidden'')"
  by (simp add: model_defs example_defs Let_def)

lemma boom_raises:
  "fst (run_worker (collab_failing ''boom'') \<lparr>youtube_url = None, audio_file = Some upload_ok\<rparr> world0) =
     Inl (Exn ''RuntimeError'' ''boom'')"
  by (simp add: model_defs example_defs Let_def)

text \<open>
  C5. When the worker raises an exception whose message contains \<^verbatim>\<open>HTTP Error 403\<close> or
  \<^verbatim>\<open>unable to download\<close>, the endpoint answers with status 400 and a detail that says
  the video may be private or protected; when the message contains neither, it answers
  with status 500 and a detail that ends with the message.
\<close>

theorem exception_classification:
  assumes "fst (run_worker c inp w) = Inl e"
  shows "(str_contains ''HTTP Error 403'' (exn_str e) \<or> str_contains ''unable to download'' (exn_str e) \<longrightarrow>
            fst (transcribe_endpoint c inp w) =
              Inl (HTTPException 400
                ''Failed to download audio from the provided YouTube URL. The video may be private or protected.''))
       \<and> (\<not> str_contains ''HTTP Error 403'' (exn_str e) \<and> \<not> str_contains ''unable to download'' (exn_str e) \<longrightarrow>
            fst (transcribe_endpoint c inp w) =
              Inl (HTTPException 500 (''An unexpected error occurred during transcription: '' @ exn_str e)))"
  using assms
  by (cases "run_worker c inp w") (auto simp: transcribe_endpoint_def handle_exception_def)

theorem exception_classification_witness:
  "fst (transcribe_endpoint collab_forbidden
          \<lparr>youtube_url = Some ''https://youtu.be/x'', audio_file = None\<rparr> world0) =
     Inl (HTTPException 400
       ''Failed to download audio from the provided YouTube URL. The video may be private or protected.'')
   \<and> fst (transcribe_endpoint (collab_failing ''boom'')
          \<lparr>youtube_url = None, audio_file = Some upload_ok\<rparr> world0) =
     Inl (HTTPException 500 ''An unexpected error occurred during transcription: boom'')"
  using exception_classification [OF forbidden_raises] exception_classification [OF boom_raises]
  by simp

lemma file_boom:
  "fst (process_audio_file (collab_failing ''boom'') (Some upload_ok) world0) =
     Inl (Exn ''RuntimeError'' ''boom'')"
  by (simp add: model_defs example_defs Let_def)

lemma file_unable:
  "fst (process_audio_file (collab_failing ''Failed to load audio: title: unable to download'')
          (Some upload_ok) world0) =
     Inl (Exn ''RuntimeError'' ''Failed to load audio: title: unable to download'')"
  by (simp add: model_defs example_defs Let_def)

text \<open>
  For a file-backed request (an uploaded file, and no URL or an empty one), an exception
  raised during processing whose message contains neither \<^verbatim>\<open>HTTP Error 403\<close> nor
  \<^verbatim>\<open>unable to download\<close> gives status 500 with the message in the detail.
\<close>

lemma file_request_other_exception_is_500:
  assumes "url = None \<or> url = Some ''''"
      and "fst (process_audio_file c (Some f) w) = Inl e"
      and "\<not> str_contains ''HTTP Error 403'' (exn_str e)"
      and "\<not> str_contains ''unable to download'' (exn_str e)"
  shows "fst (post_transcribe c url (Upload f) w) =
           Inl (HTTPException 500 (''An unexpected error occurred during transcription: '' @ exn_str e))"
proof -
  have v: "validate_and_process_inputs url (Upload f) = Inr \<lparr>youtube_url = url, audio_file = Some f\<rparr>"
    using assms(1) by (auto simp: validate_and_process_inputs_def)
  have r: "run_worker c \<lparr>youtube_url = url, audio_file = Some f\<rparr> w = process_audio_file c (Some f) w"
    using assms(1) by (auto simp: run_worker_def)
  show ?thesis
    using v r assms(2,3,4)
    by (cases "process_audio_file c (Some f) w")
       (auto simp: post_transcribe_def transcribe_endpoint_def handle_exception_def)
qed

text \<open>
  C6. For a file-backed request every exception raised during processing gives status 500
  with the original message; the remapping to 400 is for exceptions raised while a URL is
  resolved. The endpoint does not meet this: one \<^verbatim>\<open>try\<close> covers both workers and the
  \<^verbatim>\<open>except\<close> clause looks at the message only. For an upload with no URL whose inference
  raises with a message that contains \<^verbatim>\<open>unable to download\<close>, the validator accepts
  the file-backed request, the file worker raises, and the response has status 400 with
  the detail that speaks of the provided YouTube URL.
\<close>

theorem file_request_exception_is_400:
  "validate_and_process_inputs None (Upload upload_ok) =
     Inr \<lparr>youtube_url = None, audio_file = Some upload_ok\<rparr>
   \<and> fst (process_audio_file (collab_failing ''Failed to load audio: title: unable to download'')
            (Some upload_ok) world0) =
       Inl (Exn ''RuntimeError'' ''Failed to load audio: title: unable to download'')
   \<and> response_status (fst (post_transcribe (collab_failing ''Failed to load audio: title: unable to download'')
            None (Upload upload_ok) world0)) = 400
   \<and> response_status (fst (post_transcribe (collab_failing ''Failed to load audio: title: unable to download'')
            None (Upload upload_ok) world0)) \<noteq> 500
   \<and> fst (post_transcribe (collab_failing ''Failed to load audio: title: unable to download'')
            None (Upload upload_ok) world0) =
       Inl (HTTPException 400
         ''Failed to download audio from the provided YouTube URL. The video may be private or protected.'')"
proof -
  have "fst (post_transcribe (collab_failing ''Failed to load audio: title: unable to download'')
            None (Upload upload_ok) world0) =
       Inl (HTTPException 400
         ''Failed to download audio from the provided YouTube URL. The video may be private or protected.'')"
    by (simp add: model_defs example_defs Let_def)
  then show ?thesis
    using file_unable by (simp add: validate_and_process_inputs_def)
qed

end
